theory Spec2Isabelle
  imports Main
begin

section \<open>Next.js adapter utilities (src/frameworks/next/utils.ts)\<close>

text \<open>
  A JavaScript string is modelled as a \<^typ>\<open>string\<close>. The two regular expressions of
  this file are written without the \<open>u\<close> flag and mention ASCII characters only, so they
  inspect one code unit at a time and never match inside a non-ASCII character; a list of
  characters scanned from left to right is what they see.
\<close>

abbreviation backslash :: char where
  "backslash \<equiv> CHR 0x5C"

text \<open>
  \<^verbatim>\<open>return /(?<!\\)\(/.test(path);\<close>
  The pattern is an opening parenthesis with a negative look-behind for one backslash.
  \<open>test\<close> tries every position from the left; \<open>regexMatchesFrom prev cs\<close> is that search on
  the rest \<open>cs\<close> of the path, where \<open>prev\<close> is the character just before \<open>cs\<close> (none at the
  start of the path).
\<close>

fun regexMatchesFrom :: "char option \<Rightarrow> string \<Rightarrow> bool" where
  "regexMatchesFrom prev [] = False"
| "regexMatchesFrom prev (c # cs) =
     (if c = CHR ''('' \<and> prev \<noteq> Some backslash then True
      else regexMatchesFrom (Some c) cs)"

definition pathHasRegex :: "string \<Rightarrow> bool" where
  "pathHasRegex path = regexMatchesFrom None path"

text \<open>
  \<^verbatim>\<open>return path.replace(/\\([(){}:+?*])/g, (a, b: string) => b);\<close>
  The character class of the pattern.
\<close>

definition escapable :: "char \<Rightarrow> bool" where
  "escapable c = (c \<in> set ''(){}:+?*'')"

text \<open>
  A global \<open>replace\<close> walks the string from the left. Where the pattern matches (a backslash
  and then a character of the class) the two characters are replaced by the captured
  group, the second one, and the walk goes on after the match; elsewhere the character
  is copied and the walk moves one step.
\<close>

fun cleanEscapedChars :: "string \<Rightarrow> string" where
  "cleanEscapedChars [] = []"
| "cleanEscapedChars [c] = [c]"
| "cleanEscapedChars (c # d # cs) =
     (if c = backslash \<and> escapable d then d # cleanEscapedChars cs
      else c # cleanEscapedChars (d # cs))"

text \<open>
  The route objects of Next.js (\<open>Header\<close>, \<open>Rewrite\<close>, \<open>Redirect\<close>), with the fields
  the predicates read. An optional property is an \<^typ>\<open>'a option\<close>: the JavaScript test
  \<open>"has" in rewrite\<close> asks whether the key is there, whatever its value.
\<close>

datatype route_has = RouteHas (hasType: string) (hasKey: "string option") (hasValue: "string option")

record route =
  source :: string
  has :: "route_has list option"

record rewrite = route +
  destination :: string

record redirect = rewrite +
  internal :: "bool option"

text \<open>
  \<^verbatim>\<open>return !("has" in rewrite || pathHasRegex(rewrite.source) || isUrl(rewrite.destination));\<close>
  \<open>isUrl\<close> is imported from \<open>../utils\<close>, which is not among the sources: it is a parameter.
\<close>

definition isRewriteSupportedByHosting :: "(string \<Rightarrow> bool) \<Rightarrow> 'a rewrite_scheme \<Rightarrow> bool" where
  "isRewriteSupportedByHosting isUrl rewrite =
     (\<not> (has rewrite \<noteq> None \<or> pathHasRegex (source rewrite) \<or> isUrl (destination rewrite)))"

text \<open>
  \<^verbatim>\<open>return !("has" in redirect || pathHasRegex(redirect.source) || "internal" in redirect);\<close>
\<close>

definition isRedirectSupportedByHosting :: "'a redirect_scheme \<Rightarrow> bool" where
  "isRedirectSupportedByHosting redirect =
     (\<not> (has redirect \<noteq> None \<or> pathHasRegex (source redirect) \<or> internal redirect \<noteq> None))"

text \<open>
  \<^verbatim>\<open>return !("has" in header || pathHasRegex(header.source));\<close>
\<close>

definition isHeaderSupportedByHosting :: "'a route_scheme \<Rightarrow> bool" where
  "isHeaderSupportedByHosting header = (\<not> (has header \<noteq> None \<or> pathHasRegex (source header)))"

text \<open>
  \<open>Manifest["rewrites"]\<close> is an array of rewrites, or an object with the optional lists
  \<open>beforeFiles\<close>, \<open>afterFiles\<close> and \<open>fallback\<close>, or absent; \<open>null\<close> is what a JSON
  manifest can hold in its place.
\<close>

record 'r rewrites_object =
  beforeFiles :: "'r list option"
  afterFiles :: "'r list option"
  fallback :: "'r list option"

datatype 'r rewrites_manifest =
    RewritesUndefined
  | RewritesNull
  | RewritesArray "'r list"
  | RewritesObject "'r rewrites_object"

text \<open>
  \<^verbatim>\<open>
  if (Array.isArray(nextJsRewrites)) { return nextJsRewrites; }
  if (nextJsRewrites?.beforeFiles) { return nextJsRewrites.beforeFiles; }
  return [];
  \<close>
  An array is truthy in JavaScript also when it is empty, so the second test asks only
  whether \<open>beforeFiles\<close> is there.
\<close>

fun getNextjsRewritesToUse :: "'r rewrites_manifest \<Rightarrow> 'r list" where
  "getNextjsRewritesToUse (RewritesArray nextJsRewrites) = nextJsRewrites"
| "getNextjsRewritesToUse (RewritesObject obj) =
     (case beforeFiles obj of Some rewrites \<Rightarrow> rewrites | None \<Rightarrow> [])"
| "getNextjsRewritesToUse RewritesUndefined = []"
| "getNextjsRewritesToUse RewritesNull = []"

section \<open>The disable_user tool (src/mcp/tools/auth/disable_user.ts)\<close>

text \<open>
  A value of type \<open>string | undefined\<close> is a \<^typ>\<open>string option\<close>. JavaScript's \<open>!v\<close>
  holds of such a value when it is \<open>undefined\<close> or the empty string.
\<close>

definition truthy :: "string option \<Rightarrow> bool" where
  "truthy v = (case v of None \<Rightarrow> False | Some s \<Rightarrow> s \<noteq> [])"

record tool_input =
  uid :: string
  disable :: bool

record server_context =
  projectId :: "string option"

text \<open>
  \<^verbatim>\<open>
  async ({uid, disable}, { projectId }) => {
    if (!projectId) return mcpError(`No current project detected.`);
    return toContent(await getProject(projectId));
  }
  \<close>
  This is the handler of the tool that the module exports as \<open>get_project\<close> and registers
  under the name \<open>disable_user\<close>. \<open>getProject\<close>, \<open>mcpError\<close> and \<open>toContent\<close> are
  imported from modules that are not among the sources, so they are parameters.
  \<open>getProject\<close> is a remote call: it acts on the state \<open>'s\<close> of the remote services and
  either rejects (\<open>Inl\<close>) or resolves to a project (\<open>Inr\<close>). The handler is asynchronous,
  so its own result is a rejection or a returned value, together with the remote state it
  leaves.
\<close>

definition get_project ::
  "(string \<Rightarrow> 's \<Rightarrow> ('e + 'p) \<times> 's) \<Rightarrow> (string \<Rightarrow> 'r) \<Rightarrow> ('p \<Rightarrow> 'r) \<Rightarrow>
   tool_input \<Rightarrow> server_context \<Rightarrow> 's \<Rightarrow> ('e + 'r) \<times> 's" where
  "get_project getProject mcpError toContent input ctx s =
     (case projectId ctx of
        None \<Rightarrow> (Inr (mcpError ''No current project detected.''), s)
      | Some pid \<Rightarrow>
          if pid = [] then (Inr (mcpError ''No current project detected.''), s)
          else (case getProject pid s of
                  (Inl e, s') \<Rightarrow> (Inl e, s')
                | (Inr project, s') \<Rightarrow> (Inr (toContent project), s')))"

section \<open>The command-line bootstrap (src/bin/cli.ts)\<close>

text \<open>
  A thrown value, with the two properties the code reads or sets: the message, and the
  \<open>code\<close> that Node's file-system errors carry (\<open>ENOENT\<close>, \<open>EACCES\<close>, ...).
\<close>

record js_error =
  message :: string
  code :: "string option"

text \<open>
  What the code asks of Node. \<open>process.cwd()\<close> returns the working directory or throws
  (it does when the directory has been removed). \<open>path.join\<close> returns. \<open>fs.openSync(path,
  "r+")\<close> returns a descriptor or throws. \<open>fs.closeSync(fd)\<close> and \<open>fs.unlinkSync(path)\<close>
  return nothing or throw: \<open>closeSync\<close> and \<open>unlinkError\<close> give what they throw, if anything.
\<close>

record node_env =
  cwd :: "js_error + string"
  join :: "string \<Rightarrow> string \<Rightarrow> string"
  openSync :: "string \<Rightarrow> js_error + nat"
  closeSync :: "nat \<Rightarrow> js_error option"
  unlinkError :: "string \<Rightarrow> js_error option"

text \<open>The decimal digits of a number, as a template literal prints it.\<close>

fun decimal :: "nat \<Rightarrow> string" where
  "decimal n =
     (if n < 10 then [''0123456789'' ! n]
      else decimal (n div 10) @ [''0123456789'' ! (n mod 10)])"

declare decimal.simps [simp del]

text \<open>
  \<^verbatim>\<open>
  const candidates = ["firebase-debug.log"];
  for (let i = 1; i < 10; i++) { candidates.push(`firebase-debug.${i}.log`); }
  \<close>
\<close>

function pushCandidates :: "nat \<Rightarrow> string list \<Rightarrow> string list" where
  "pushCandidates i candidates =
     (if i < 10
      then pushCandidates (i + 1) (candidates @ [''firebase-debug.'' @ decimal i @ ''.log''])
      else candidates)"
  by pat_completeness auto
termination
  by (relation "measure (\<lambda>(i, candidates). 10 - i)") auto

declare pushCandidates.simps [simp del]

definition candidates :: "string list" where
  "candidates = pushCandidates 1 [''firebase-debug.log'']"

text \<open>
  \<^verbatim>\<open>
  try {
    const fd = fs.openSync(logFilename, "r+");
    fs.closeSync(fd);
    return logFilename;
  } catch (e: any) { ... }
  \<close>
  The body of the \<open>try\<close>: \<open>None\<close> when both calls return, the thrown value otherwise.
\<close>

definition openAndClose :: "node_env \<Rightarrow> string \<Rightarrow> js_error option" where
  "openAndClose env logFilename =
     (case openSync env logFilename of
        Inl e \<Rightarrow> Some e
      | Inr fd \<Rightarrow> closeSync env fd)"

text \<open>
  \<^verbatim>\<open>
  for (const c of candidates) {
    const logFilename = join(process.cwd(), c);
    try { ...; return logFilename; }
    catch (e: any) {
      if (e.code === "ENOENT") { return logFilename; }
      // Any other error (EPERM, etc) means we won't be able to log to this file so we skip it.
    }
  }
  throw new Error("Unable to obtain permissions for firebase-debug.log");
  \<close>
  \<open>process.cwd()\<close> is called in every round, before the \<open>try\<close>: what it throws leaves the
  function.
\<close>

fun tryCandidates :: "node_env \<Rightarrow> string list \<Rightarrow> js_error + string" where
  "tryCandidates env [] =
     Inl \<lparr>message = ''Unable to obtain permissions for firebase-debug.log'', code = None\<rparr>"
| "tryCandidates env (c # cs) =
     (case cwd env of
        Inl e \<Rightarrow> Inl e
      | Inr dir \<Rightarrow>
          (let logFilename = join env dir c in
           case openAndClose env logFilename of
             None \<Rightarrow> Inr logFilename
           | Some e \<Rightarrow>
               if code e = Some ''ENOENT'' then Inr logFilename
               else tryCandidates env cs))"

definition findAvailableLogFile :: "node_env \<Rightarrow> js_error + string" where
  "findAvailableLogFile env = tryCandidates env candidates"

text \<open>
  The state of the process that \<open>cli\<close> and its listeners read and write: the arguments
  (\<open>process.argv.slice(2)\<close>), two environment variables, \<open>process.exitCode\<close>, the
  paths that name an existing file, the files the logger writes to, and the listeners
  registered with \<open>process.on\<close>. A listener is a closure; it is recorded by what it is
  and what it captured, and run by the function that follows its text.
\<close>

datatype exit_listener = LogCleanup string

datatype uncaught_listener = CallErrorOut

record process =
  args :: "string list"
  envDEBUG :: "string option"
  envIS_FIREBASE_CLI :: "string option"
  exitCode :: "int option"
  files :: "string set"
  logTransports :: "string list"
  exitListeners :: "exit_listener list"
  uncaughtExceptionListeners :: "uncaught_listener list"

text \<open>
  \<open>fsutils.fileExistsSync\<close> (not among the sources) and \<open>fs.unlinkSync\<close>, on the files of
  the process state. \<open>unlinkSync\<close> removes the path, or throws (\<open>EACCES\<close>, \<open>EPERM\<close>, ...)
  and leaves the files as they are.
\<close>

definition fileExistsSync :: "process \<Rightarrow> string \<Rightarrow> bool" where
  "fileExistsSync p path = (path \<in> files p)"

definition unlinkSync :: "node_env \<Rightarrow> string \<Rightarrow> process \<Rightarrow> js_error + process" where
  "unlinkSync env path p =
     (case unlinkError env path of
        Some e \<Rightarrow> Inl e
      | None \<Rightarrow> Inr (p\<lparr>files := files p - {path}\<rparr>))"

text \<open>
  \<^verbatim>\<open>code = process.exitCode || code;\<close>
  \<open>process.exitCode\<close> is a number or \<open>undefined\<close>; both \<open>undefined\<close> and \<open>0\<close> are falsy.
\<close>

definition effectiveCode :: "process \<Rightarrow> int \<Rightarrow> int" where
  "effectiveCode p code0 =
     (case exitCode p of
        None \<Rightarrow> code0
      | Some c \<Rightarrow> if c = 0 then code0 else c)"

text \<open>
  \<^verbatim>\<open>
  process.on("exit", (code) => {
    code = process.exitCode || code;
    if (!process.env.DEBUG && code < 2 && fsutils.fileExistsSync(logFilename)) {
      fs.unlinkSync(logFilename);
    }
    ...
  });
  \<close>
  \<open>unlinkSync\<close> is not inside a \<open>try\<close>: what it throws leaves the listener, whose result
  is then \<open>Inl\<close> with the state as it was. The rest of the listener records the time of
  the last error in the configuration store and prints the update notice; it does not
  touch the state modelled here.
\<close>

definition onExit :: "node_env \<Rightarrow> string \<Rightarrow> int \<Rightarrow> process \<Rightarrow> (js_error + unit) \<times> process" where
  "onExit env logFilename code0 p =
     (let code = effectiveCode p code0 in
      if \<not> truthy (envDEBUG p) \<and> code < 2 \<and> fileExistsSync p logFilename
      then (case unlinkSync env logFilename p of
              Inl e \<Rightarrow> (Inl e, p)
            | Inr p' \<Rightarrow> (Inr (), p'))
      else (Inr (), p))"

fun runExitListener ::
  "node_env \<Rightarrow> exit_listener \<Rightarrow> int \<Rightarrow> process \<Rightarrow> (js_error + unit) \<times> process" where
  "runExitListener env (LogCleanup logFilename) code0 p = onExit env logFilename code0 p"

text \<open>
  \<^verbatim>\<open>process.on("uncaughtException", (err) => { errorOut(err); });\<close>
  \<open>errorOut\<close> is imported from \<open>../errorOut\<close>, which is not among the sources: it is a
  parameter.
\<close>

fun runUncaughtListener :: "(js_error \<Rightarrow> 'r) \<Rightarrow> uncaught_listener \<Rightarrow> js_error \<Rightarrow> 'r" where
  "runUncaughtListener errorOut CallErrorOut err = errorOut err"

text \<open>
  \<open>cli\<close>, as far as the process state goes. It throws what \<open>findAvailableLogFile\<close> throws
  (line 58), before anything else is done. Otherwise it sets \<open>DEBUG\<close> when the arguments
  hold \<open>--debug\<close> (lines 60 to 62), sets \<open>IS_FIREBASE_CLI\<close> (line 64), adds the log file to
  the logger (line 66), and registers the exit listener (line 92) and the listener for
  uncaught exceptions (line 148). The calls to the update notifier, the logger, the
  experiments, the message of the day and the command parser go to modules that are not
  among the sources; they are taken to return.
\<close>

definition cli :: "node_env \<Rightarrow> process \<Rightarrow> (js_error + unit) \<times> process" where
  "cli env p =
     (case findAvailableLogFile env of
        Inl e \<Rightarrow> (Inl e, p)
      | Inr logFilename \<Rightarrow>
          (Inr (),
           p\<lparr>envDEBUG :=
                (if \<not> truthy (envDEBUG p) \<and> ''--debug'' \<in> set (args p) then Some ''true''
                 else envDEBUG p),
             envIS_FIREBASE_CLI := Some ''true'',
             logTransports := logTransports p @ [logFilename],
             exitListeners := exitListeners p @ [LogCleanup logFilename],
             uncaughtExceptionListeners := uncaughtExceptionListeners p @ [CallErrorOut]\<rparr>))"

text \<open>
  Node's treatment of an exception that nothing caught: it is given to every listener of
  \<open>uncaughtException\<close>, in the order of registration; when there is none, the exception
  is not handled at all and Node's default applies (the stack trace is printed and the
  process exits with code 1). \<open>Inl\<close> is that second case.
\<close>

definition emitUncaughtException ::
  "(js_error \<Rightarrow> 'r) \<Rightarrow> process \<Rightarrow> js_error \<Rightarrow> js_error + 'r list" where
  "emitUncaughtException errorOut p err =
     (if uncaughtExceptionListeners p = [] then Inl err
      else Inr (map (\<lambda>l. runUncaughtListener errorOut l err) (uncaughtExceptionListeners p)))"

section \<open>Properties of the Next.js utilities\<close>

subsection \<open>Auxiliary facts\<close>

lemma regexMatchesFrom_iff:
  "regexMatchesFrom prev cs \<longleftrightarrow>
     (\<exists>i<length cs. cs ! i = CHR ''('' \<and>
        (if i = 0 then prev \<noteq> Some backslash else cs ! (i - 1) \<noteq> backslash))"
proof (induction cs arbitrary: prev)
  case Nil
  show ?case by simp
next
  case (Cons c cs)
  let ?P = "\<lambda>p xs i. xs ! i = CHR ''('' \<and>
        (if i = 0 then p \<noteq> Some backslash else xs ! (i - 1) \<noteq> backslash)"
  have shift: "?P prev (c # cs) (Suc i) = ?P (Some c) cs i" for i
    by (cases i) simp_all
  have "(\<exists>i<length (c # cs). ?P prev (c # cs) i) \<longleftrightarrow>
        ?P prev (c # cs) 0 \<or> (\<exists>i<length cs. ?P prev (c # cs) (Suc i))"
    unfolding length_Cons Ex_less_Suc2 ..
  also have "\<dots> \<longleftrightarrow>
        (c = CHR ''('' \<and> prev \<noteq> Some backslash) \<or> (\<exists>i<length cs. ?P (Some c) cs i)"
    unfolding shift by simp
  also have "\<dots> \<longleftrightarrow> regexMatchesFrom prev (c # cs)"
    unfolding Cons.IH [of "Some c", symmetric] by auto
  finally show ?case by simp
qed

lemma escapable_not_backslash: "escapable c \<Longrightarrow> c \<noteq> backslash"
  by (auto simp: escapable_def)

lemma cleanEscapedChars_nths:
  "cleanEscapedChars path =
     nths path {i. \<not> (Suc i < length path \<and> path ! i = backslash \<and> escapable (path ! Suc i))}"
proof (induction path rule: cleanEscapedChars.induct)
  case 1
  show ?case by simp
next
  case (2 c)
  show ?case by (simp add: nths_Cons)
next
  case (3 c d cs)
  show ?case
  proof (cases "c = backslash \<and> escapable d")
    case True
    then have "d \<noteq> backslash" by (simp add: escapable_not_backslash)
    with True 3(1) show ?thesis by (auto simp: nths_Cons)
  next
    case False
    with 3(2) show ?thesis by (auto simp: nths_Cons)
  qed
qed

lemma cleanEscapedChars_id:
  "(\<forall>i. Suc i < length path \<longrightarrow> \<not> (path ! i = backslash \<and> escapable (path ! Suc i)))
     \<Longrightarrow> cleanEscapedChars path = path"
proof (induction path rule: cleanEscapedChars.induct)
  case 1
  show ?case by simp
next
  case (2 c)
  show ?case by simp
next
  case (3 c d cs)
  from 3(3) [rule_format, of 0] have no: "\<not> (c = backslash \<and> escapable d)" by simp
  have "\<forall>i. Suc i < length (d # cs) \<longrightarrow>
          \<not> ((d # cs) ! i = backslash \<and> escapable ((d # cs) ! Suc i))"
  proof (intro allI impI)
    fix i assume "Suc i < length (d # cs)"
    with 3(3) [rule_format, of "Suc i"]
    show "\<not> ((d # cs) ! i = backslash \<and> escapable ((d # cs) ! Suc i))" by simp
  qed
  with 3(2) no show ?case by auto
qed

lemma cleanEscapedChars_length:
  "length (cleanEscapedChars path) +
     card {i. Suc i < length path \<and> path ! i = backslash \<and> escapable (path ! Suc i)}
   = length path"
proof -
  let ?E = "{i. Suc i < length path \<and> path ! i = backslash \<and> escapable (path ! Suc i)}"
  have sub: "?E \<subseteq> {..<length path}" by auto
  have fin: "finite ?E" using finite_subset [OF sub] by simp
  have "length (cleanEscapedChars path) = card ({..<length path} - ?E)"
    unfolding cleanEscapedChars_nths length_nths
    by (rule arg_cong [where f = card]) auto
  also have "\<dots> = length path - card ?E"
    using card_Diff_subset [OF fin sub] by simp
  finally show ?thesis
    using card_mono [OF _ sub] by simp
qed

text \<open>
  Unescaping twice is not unescaping once when the path holds a doubled backslash before
  a special character: the first pass leaves one backslash, the second removes it.
\<close>

lemma cleanEscapedChars_twice_differs:
  "cleanEscapedChars [backslash, backslash, CHR ''(''] = [backslash, CHR ''(''] \<and>
   cleanEscapedChars (cleanEscapedChars [backslash, backslash, CHR ''(''])= [CHR ''('']"
  by (simp add: escapable_def)

subsection \<open>pathHasRegex\<close>

text \<open>
  C8. \<open>pathHasRegex\<close> holds of a path exactly when the path has an opening parenthesis
  that is at the start or whose preceding character is not a backslash. A parenthesis
  escaped by one backslash does not count, and neither does one behind two backslashes:
  the look-behind reads a single character, whatever the comment in the code says about
  double backslashes.
\<close>

theorem pathHasRegex_unescaped_parenthesis:
  "(pathHasRegex path \<longleftrightarrow>
      (\<exists>i<length path. path ! i = CHR ''('' \<and> (i = 0 \<or> path ! (i - 1) \<noteq> backslash))) \<and>
   \<not> pathHasRegex [backslash, CHR ''(''] \<and>
   \<not> pathHasRegex [backslash, backslash, CHR ''('']"
proof -
  have "pathHasRegex path \<longleftrightarrow>
      (\<exists>i<length path. path ! i = CHR ''('' \<and> (i = 0 \<or> path ! (i - 1) \<noteq> backslash))"
    unfolding pathHasRegex_def regexMatchesFrom_iff by (rule iff_exI) simp
  then show ?thesis by (simp add: pathHasRegex_def)
qed

theorem pathHasRegex_unescaped_parenthesis_witness:
  "(\<exists>i<length ''/post/:slug(x)''. ''/post/:slug(x)'' ! i = CHR ''('' \<and>
      (i = 0 \<or> ''/post/:slug(x)'' ! (i - 1) \<noteq> backslash)) \<and>
   \<not> (\<exists>i<length (''/a'' @ [backslash] @ ''(b'').
      (''/a'' @ [backslash] @ ''(b'') ! i = CHR ''('' \<and>
      (i = 0 \<or> (''/a'' @ [backslash] @ ''(b'') ! (i - 1) \<noteq> backslash))"
  using pathHasRegex_unescaped_parenthesis [of "''/post/:slug(x)''"]
    pathHasRegex_unescaped_parenthesis [of "''/a'' @ [backslash] @ ''(b''"]
  by (simp add: pathHasRegex_def)

subsection \<open>cleanEscapedChars\<close>

lemma escapable_iff:
  "escapable c \<longleftrightarrow>
     c \<in> {CHR ''('', CHR '')'', CHR ''{'', CHR ''}'', CHR '':'', CHR ''+'', CHR ''?'', CHR ''*''}"
  by (auto simp: escapable_def)

lemma cleanEscapedChars_before_backslash:
  "cleanEscapedChars (xs @ backslash # ys) = cleanEscapedChars xs @ cleanEscapedChars (backslash # ys)"
proof (induction xs rule: cleanEscapedChars.induct)
  case 1
  show ?case by simp
next
  case (2 c)
  have "\<not> escapable backslash" by (simp add: escapable_def)
  then show ?case by simp
next
  case (3 c d cs)
  show ?case
  proof (cases "c = backslash \<and> escapable d")
    case True
    with 3(1) show ?thesis by simp
  next
    case False
    with 3(2) show ?thesis by auto
  qed
qed

text \<open>
  C3. \<open>cleanEscapedChars\<close> returns the path without the backslashes that stand
  immediately before one of \<open>( ) { } : + ? *\<close>, and with every other character kept in
  place: one backslash goes for each such occurrence, so the length drops by their
  number. Said piece by piece: a backslash followed by one of the eight characters is
  dropped and the character kept, a backslash followed by any other character stays,
  and what comes before and after is treated on its own. On a path with no backslash
  immediately before one of those characters the function is the identity, and so
  applying it twice to such a path gives what applying it once gives.
\<close>

theorem cleanEscapedChars_unescapes:
  "cleanEscapedChars path =
     nths path {i. \<not> (Suc i < length path \<and> path ! i = backslash \<and>
       path ! Suc i \<in> {CHR ''('', CHR '')'', CHR ''{'', CHR ''}'', CHR '':'', CHR ''+'', CHR ''?'', CHR ''*''})} \<and>
   length (cleanEscapedChars path) +
     card {i. Suc i < length path \<and> path ! i = backslash \<and>
       path ! Suc i \<in> {CHR ''('', CHR '')'', CHR ''{'', CHR ''}'', CHR '':'', CHR ''+'', CHR ''?'', CHR ''*''}}
     = length path \<and>
   (c \<in> {CHR ''('', CHR '')'', CHR ''{'', CHR ''}'', CHR '':'', CHR ''+'', CHR ''?'', CHR ''*''} \<longrightarrow>
      cleanEscapedChars (pre @ backslash # c # post) =
        cleanEscapedChars pre @ c # cleanEscapedChars post) \<and>
   (c \<notin> {CHR ''('', CHR '')'', CHR ''{'', CHR ''}'', CHR '':'', CHR ''+'', CHR ''?'', CHR ''*''} \<longrightarrow>
      cleanEscapedChars (pre @ backslash # c # post) =
        cleanEscapedChars pre @ backslash # cleanEscapedChars (c # post)) \<and>
   ((\<forall>i. Suc i < length path \<longrightarrow>
        \<not> (path ! i = backslash \<and>
           path ! Suc i \<in> {CHR ''('', CHR '')'', CHR ''{'', CHR ''}'', CHR '':'', CHR ''+'', CHR ''?'', CHR ''*''})) \<longrightarrow>
      cleanEscapedChars path = path \<and>
      cleanEscapedChars (cleanEscapedChars path) = cleanEscapedChars path)"
proof -
  have special: "c \<in> {CHR ''('', CHR '')'', CHR ''{'', CHR ''}'', CHR '':'', CHR ''+'', CHR ''?'', CHR ''*''} \<longrightarrow>
      cleanEscapedChars (pre @ backslash # c # post) =
        cleanEscapedChars pre @ c # cleanEscapedChars post"
    unfolding escapable_iff [symmetric] cleanEscapedChars_before_backslash by simp
  have other: "c \<notin> {CHR ''('', CHR '')'', CHR ''{'', CHR ''}'', CHR '':'', CHR ''+'', CHR ''?'', CHR ''*''} \<longrightarrow>
      cleanEscapedChars (pre @ backslash # c # post) =
        cleanEscapedChars pre @ backslash # cleanEscapedChars (c # post)"
    unfolding escapable_iff [symmetric] cleanEscapedChars_before_backslash by simp
  have plain: "cleanEscapedChars path = path \<and>
      cleanEscapedChars (cleanEscapedChars path) = cleanEscapedChars path"
    if "\<forall>i. Suc i < length path \<longrightarrow> \<not> (path ! i = backslash \<and> escapable (path ! Suc i))"
    using cleanEscapedChars_id [OF that] by simp
  from cleanEscapedChars_nths [of path] cleanEscapedChars_length [of path] special other plain
  show ?thesis
    unfolding escapable_iff by blast
qed

theorem cleanEscapedChars_unescapes_witness:
  "cleanEscapedChars ''/blog/:slug'' = ''/blog/:slug'' \<and>
   cleanEscapedChars (cleanEscapedChars ''/blog/:slug'') = cleanEscapedChars ''/blog/:slug'' \<and>
   cleanEscapedChars (''/a'' @ backslash # CHR ''('' # ''b'') = ''/a(b'' \<and>
   cleanEscapedChars (''/a'' @ backslash # CHR ''*'' # ''b'') = ''/a*b'' \<and>
   cleanEscapedChars (''/a'' @ backslash # CHR ''n'' # ''b'') = ''/a'' @ backslash # ''nb''"
proof -
  have "backslash \<notin> set ''/blog/:slug''" by simp
  then have plain: "\<forall>i. Suc i < length ''/blog/:slug'' \<longrightarrow>
      \<not> (''/blog/:slug'' ! i = backslash \<and>
         ''/blog/:slug'' ! Suc i \<in> {CHR ''('', CHR '')'', CHR ''{'', CHR ''}'', CHR '':'', CHR ''+'', CHR ''?'', CHR ''*''})"
    by (metis Suc_lessD nth_mem)
  have a: "cleanEscapedChars ''/blog/:slug'' = ''/blog/:slug'' \<and>
   cleanEscapedChars (cleanEscapedChars ''/blog/:slug'') = cleanEscapedChars ''/blog/:slug''"
    using plain cleanEscapedChars_unescapes [of "''/blog/:slug''"] by blast
  have b: "cleanEscapedChars (''/a'' @ backslash # CHR ''('' # ''b'') = ''/a(b''"
    using cleanEscapedChars_unescapes
      [of "[]" "CHR ''(''" "''/a''" "''b''", THEN conjunct2, THEN conjunct2, THEN conjunct1]
    by (simp add: escapable_def)
  have c: "cleanEscapedChars (''/a'' @ backslash # CHR ''*'' # ''b'') = ''/a*b''"
    using cleanEscapedChars_unescapes
      [of "[]" "CHR ''*''" "''/a''" "''b''", THEN conjunct2, THEN conjunct2, THEN conjunct1]
    by (simp add: escapable_def)
  have d: "cleanEscapedChars (''/a'' @ backslash # CHR ''n'' # ''b'') = ''/a'' @ backslash # ''nb''"
    using cleanEscapedChars_unescapes
      [of "[]" "CHR ''n''" "''/a''" "''b''",
       THEN conjunct2, THEN conjunct2, THEN conjunct2, THEN conjunct1]
    by (simp add: escapable_def)
  from a b c d show ?thesis by blast
qed

lemma cleanEscapedChars_example:
  "cleanEscapedChars (''/a'' @ [backslash] @ ''(b'' @ [backslash] @ '')/'' @ [backslash] @ ''c'')
     = ''/a(b)/'' @ [backslash] @ ''c''"
  by (simp add: escapable_def)

subsection \<open>The support predicates\<close>

text \<open>
  C1. \<open>isRewriteSupportedByHosting\<close> returns false for a rewrite that has the \<open>has\<close>
  property, or whose source has a regex in the sense of \<open>pathHasRegex\<close>, or whose
  destination is a URL in the sense of \<open>isUrl\<close>; for a rewrite with none of the three it
  returns true.
\<close>

theorem isRewriteSupportedByHosting_spec:
  "((has rewrite \<noteq> None \<or> pathHasRegex (source rewrite) \<or> isUrl (destination rewrite))
      \<longrightarrow> isRewriteSupportedByHosting isUrl rewrite = False) \<and>
   ((has rewrite = None \<and> \<not> pathHasRegex (source rewrite) \<and> \<not> isUrl (destination rewrite))
      \<longrightarrow> isRewriteSupportedByHosting isUrl rewrite = True)"
  by (simp add: isRewriteSupportedByHosting_def)

theorem isRewriteSupportedByHosting_spec_witness:
  "isRewriteSupportedByHosting (\<lambda>url. take 8 url = ''https://'')
     \<lparr>source = ''/docs/:page'', has = None, destination = ''/manual/:page''\<rparr> = True \<and>
   isRewriteSupportedByHosting (\<lambda>url. take 8 url = ''https://'')
     \<lparr>source = ''/docs/:page'', has = Some [RouteHas ''header'' (Some ''x-preview'') None],
      destination = ''/manual/:page''\<rparr> = False \<and>
   isRewriteSupportedByHosting (\<lambda>url. take 8 url = ''https://'')
     \<lparr>source = ''/post/:slug(x)'', has = None, destination = ''/manual/:page''\<rparr> = False \<and>
   isRewriteSupportedByHosting (\<lambda>url. take 8 url = ''https://'')
     \<lparr>source = ''/docs/:page'', has = None, destination = ''https://example.com/:page''\<rparr> = False"
  using
    isRewriteSupportedByHosting_spec
      [of "\<lparr>source = ''/docs/:page'', has = None, destination = ''/manual/:page''\<rparr>"
          "\<lambda>url. take 8 url = ''https://''"]
    isRewriteSupportedByHosting_spec
      [of "\<lparr>source = ''/docs/:page'', has = Some [RouteHas ''header'' (Some ''x-preview'') None],
            destination = ''/manual/:page''\<rparr>"
          "\<lambda>url. take 8 url = ''https://''"]
    isRewriteSupportedByHosting_spec
      [of "\<lparr>source = ''/post/:slug(x)'', has = None, destination = ''/manual/:page''\<rparr>"
          "\<lambda>url. take 8 url = ''https://''"]
    isRewriteSupportedByHosting_spec
      [of "\<lparr>source = ''/docs/:page'', has = None, destination = ''https://example.com/:page''\<rparr>"
          "\<lambda>url. take 8 url = ''https://''"]
  by (simp add: pathHasRegex_def)

text \<open>
  C9. \<open>isRedirectSupportedByHosting\<close> returns false exactly when the redirect has the
  \<open>has\<close> property, or its source has a regex, or it has the \<open>internal\<close> property. The
  destination plays no part: changing it does not change the answer, and a redirect
  with none of the three features whose destination is a URL is supported, where the
  rewrite predicate on the same object answers false.
\<close>

theorem isRedirectSupportedByHosting_spec:
  "(isRedirectSupportedByHosting redirect = False \<longleftrightarrow>
      (has redirect \<noteq> None \<or> pathHasRegex (source redirect) \<or> internal redirect \<noteq> None)) \<and>
   isRedirectSupportedByHosting (redirect\<lparr>destination := d\<rparr>) =
     isRedirectSupportedByHosting redirect \<and>
   (has redirect = None \<and> \<not> pathHasRegex (source redirect) \<and> internal redirect = None \<and>
    isUrl (destination redirect) \<longrightarrow>
      isRedirectSupportedByHosting redirect = True \<and>
      isRewriteSupportedByHosting isUrl redirect = False)"
  by (simp add: isRedirectSupportedByHosting_def isRewriteSupportedByHosting_def)

theorem isRedirectSupportedByHosting_spec_witness:
  "isRedirectSupportedByHosting
     \<lparr>source = ''/old'', has = None, destination = ''https://example.com/new'', internal = None\<rparr>
     = True \<and>
   isRewriteSupportedByHosting (\<lambda>url. take 8 url = ''https://'')
     \<lparr>source = ''/old'', has = None, destination = ''https://example.com/new'', internal = None\<rparr>
     = False \<and>
   isRedirectSupportedByHosting
     \<lparr>source = ''/old'', has = None, destination = ''/new'', internal = Some True\<rparr> = False"
  using
    isRedirectSupportedByHosting_spec
      [of "\<lparr>source = ''/old'', has = None, destination = ''https://example.com/new'', internal = None\<rparr>"
          "''/new''" "\<lambda>url. take 8 url = ''https://''"]
    isRedirectSupportedByHosting_spec
      [of "\<lparr>source = ''/old'', has = None, destination = ''/new'', internal = Some True\<rparr>"
          "''/new''" "\<lambda>url. take 8 url = ''https://''"]
  by (simp add: pathHasRegex_def)

subsection \<open>getNextjsRewritesToUse\<close>

text \<open>
  C4. Given an array, \<open>getNextjsRewritesToUse\<close> returns it unchanged. Given an object
  whose only key is \<open>beforeFiles\<close>, it returns that list. Given a value that is neither an
  array nor an object with \<open>beforeFiles\<close>, \<open>null\<close> and \<open>undefined\<close> among them, it returns
  the empty list.
\<close>

theorem getNextjsRewritesToUse_spec:
  "getNextjsRewritesToUse (RewritesArray rewrites) = rewrites \<and>
   (beforeFiles obj = Some before \<and> afterFiles obj = None \<and> fallback obj = None
      \<longrightarrow> getNextjsRewritesToUse (RewritesObject obj) = before) \<and>
   ((\<forall>rs. manifest \<noteq> RewritesArray rs) \<and>
    (\<forall>ob. manifest = RewritesObject ob \<longrightarrow> beforeFiles ob = None)
      \<longrightarrow> getNextjsRewritesToUse manifest = []) \<and>
   getNextjsRewritesToUse RewritesNull = ([] :: 'r list) \<and>
   getNextjsRewritesToUse RewritesUndefined = ([] :: 'r list)"
  by (cases manifest) auto

theorem getNextjsRewritesToUse_spec_witness:
  "getNextjsRewritesToUse
     (RewritesObject \<lparr>beforeFiles = Some [''/a'', ''/b''], afterFiles = None, fallback = None\<rparr>)
     = [''/a'', ''/b''] \<and>
   getNextjsRewritesToUse
     (RewritesObject \<lparr>beforeFiles = None, afterFiles = Some [''/c''], fallback = None\<rparr>) = [] \<and>
   getNextjsRewritesToUse (RewritesNull :: string rewrites_manifest) = []"
  using
    getNextjsRewritesToUse_spec
      [of "[]" "\<lparr>beforeFiles = Some [''/a'', ''/b''], afterFiles = None, fallback = None\<rparr>"
          "[''/a'', ''/b'']" RewritesNull]
    getNextjsRewritesToUse_spec
      [of "[]" "\<lparr>beforeFiles = Some [''/a'', ''/b''], afterFiles = None, fallback = None\<rparr>"
          "[''/a'', ''/b'']"
          "RewritesObject \<lparr>beforeFiles = None, afterFiles = Some [''/c''], fallback = None\<rparr>"]
  by simp

text \<open>
  C10. For an object whose \<open>beforeFiles\<close> is a non-empty list, \<open>getNextjsRewritesToUse\<close>
  returns that list, whatever \<open>afterFiles\<close> and \<open>fallback\<close> hold: their rewrites never
  reach the result. When \<open>beforeFiles\<close> is the empty list, the result is the empty list.
\<close>

theorem getNextjsRewritesToUse_beforeFiles_only:
  "(beforeFiles obj = Some before \<and> before \<noteq> []
      \<longrightarrow> getNextjsRewritesToUse (RewritesObject obj) = before \<and>
          getNextjsRewritesToUse (RewritesObject (obj\<lparr>afterFiles := after, fallback := fb\<rparr>))
            = before) \<and>
   (beforeFiles obj = Some []
      \<longrightarrow> getNextjsRewritesToUse (RewritesObject obj) = [] \<and>
          getNextjsRewritesToUse (RewritesObject (obj\<lparr>afterFiles := after, fallback := fb\<rparr>))
            = [])"
  by simp

theorem getNextjsRewritesToUse_beforeFiles_only_witness:
  "getNextjsRewritesToUse
     (RewritesObject
        \<lparr>beforeFiles = Some [''/a''], afterFiles = Some [''/b''], fallback = Some [''/c'']\<rparr>)
     = [''/a''] \<and>
   getNextjsRewritesToUse
     (RewritesObject
        \<lparr>beforeFiles = Some [], afterFiles = Some [''/b''], fallback = Some [''/c'']\<rparr>)
     = ([] :: string list)"
  using
    getNextjsRewritesToUse_beforeFiles_only
      [of "\<lparr>beforeFiles = Some [''/a''], afterFiles = None, fallback = None\<rparr>" "[''/a'']"
          "Some [''/b'']" "Some [''/c'']"]
    getNextjsRewritesToUse_beforeFiles_only
      [of "\<lparr>beforeFiles = Some ([] :: string list), afterFiles = None, fallback = None\<rparr>" "[]"
          "Some [''/b'']" "Some [''/c'']"]
  by simp

section \<open>Properties of the disable_user tool\<close>

text \<open>
  C5. When the project identifier of the context is absent or empty, the handler
  returns the error content built by \<open>mcpError\<close> and does not throw; it makes no remote
  call. Otherwise it calls \<open>getProject\<close> on the identifier and returns the project as
  content (and rejects when \<open>getProject\<close> rejects). The result does not depend on \<open>uid\<close>
  or \<open>disable\<close>, and the remote state is left as it was or as \<open>getProject\<close> left it:
  whatever part of that state \<open>getProject\<close> does not change, such as the users, the
  handler does not change either.
\<close>

theorem get_project_no_mutation:
  "(\<not> truthy (projectId ctx) \<longrightarrow>
      get_project getProject mcpError toContent input ctx s =
        (Inr (mcpError ''No current project detected.''), s)) \<and>
   (truthy (projectId ctx) \<longrightarrow>
      (\<exists>pid. projectId ctx = Some pid \<and> pid \<noteq> [] \<and>
         (\<forall>project s'. getProject pid s = (Inr project, s') \<longrightarrow>
            get_project getProject mcpError toContent input ctx s = (Inr (toContent project), s')) \<and>
         (\<forall>e s'. getProject pid s = (Inl e, s') \<longrightarrow>
            get_project getProject mcpError toContent input ctx s = (Inl e, s')))) \<and>
   get_project getProject mcpError toContent \<lparr>uid = uid', disable = disable'\<rparr> ctx s =
     get_project getProject mcpError toContent input ctx s \<and>
   ((\<forall>pid t. users (snd (getProject pid t)) = users t) \<longrightarrow>
      users (snd (get_project getProject mcpError toContent input ctx s)) = users s)"
proof -
  let ?run = "get_project getProject mcpError toContent"
  have absent: "\<not> truthy (projectId ctx) \<longrightarrow>
      ?run input ctx s = (Inr (mcpError ''No current project detected.''), s)"
    by (simp add: get_project_def truthy_def split: option.splits)
  have present: "truthy (projectId ctx) \<longrightarrow>
      (\<exists>pid. projectId ctx = Some pid \<and> pid \<noteq> [] \<and>
         (\<forall>project s'. getProject pid s = (Inr project, s') \<longrightarrow>
            ?run input ctx s = (Inr (toContent project), s')) \<and>
         (\<forall>e s'. getProject pid s = (Inl e, s') \<longrightarrow> ?run input ctx s = (Inl e, s')))"
    by (auto simp: get_project_def truthy_def split: option.splits)
  have ignores: "?run \<lparr>uid = uid', disable = disable'\<rparr> ctx s = ?run input ctx s"
    by (simp add: get_project_def)
  have effect: "snd (?run input ctx s) = s \<or>
      (\<exists>pid. snd (?run input ctx s) = snd (getProject pid s))"
  proof (cases "truthy (projectId ctx)")
    case False
    with absent show ?thesis by simp
  next
    case True
    with present obtain pid where
      ok: "\<forall>project s'. getProject pid s = (Inr project, s') \<longrightarrow>
             ?run input ctx s = (Inr (toContent project), s')" and
      ko: "\<forall>e s'. getProject pid s = (Inl e, s') \<longrightarrow> ?run input ctx s = (Inl e, s')"
      by blast
    obtain r s' where call: "getProject pid s = (r, s')" by (cases "getProject pid s")
    have "snd (?run input ctx s) = s'"
      using ok ko call by (cases r) simp_all
    with call have "snd (?run input ctx s) = snd (getProject pid s)" by simp
    then show ?thesis by blast
  qed
  have frame: "(\<forall>pid t. users (snd (getProject pid t)) = users t) \<longrightarrow>
      users (snd (?run input ctx s)) = users s"
    using effect by metis
  from absent present ignores frame show ?thesis by blast
qed

theorem get_project_no_mutation_witness:
  "get_project
     (\<lambda>pid users. (if pid = ''demo'' then Inr ''projects/demo'' else Inl ''NOT_FOUND'', users))
     (\<lambda>msg. (True, ''Error: '' @ msg)) (\<lambda>project. (False, project))
     \<lparr>uid = ''u1'', disable = True\<rparr> \<lparr>projectId = None\<rparr> [(''u1'', False)]
     = (Inr (True, ''Error: No current project detected.''), [(''u1'', False)]) \<and>
   get_project
     (\<lambda>pid users. (if pid = ''demo'' then Inr ''projects/demo'' else Inl ''NOT_FOUND'', users))
     (\<lambda>msg. (True, ''Error: '' @ msg)) (\<lambda>project. (False, project))
     \<lparr>uid = ''u1'', disable = True\<rparr> \<lparr>projectId = Some ''demo''\<rparr> [(''u1'', False)]
     = (Inr (False, ''projects/demo''), [(''u1'', False)])"
  using
    get_project_no_mutation
      [of "\<lparr>projectId = None\<rparr>"
          "\<lambda>pid users. (if pid = ''demo'' then Inr ''projects/demo'' else Inl ''NOT_FOUND'', users)"
          "\<lambda>msg. (True, ''Error: '' @ msg)" "\<lambda>project. (False, project)"
          "\<lparr>uid = ''u1'', disable = True\<rparr>" "[(''u1'', False)]" "''u1''" True "\<lambda>users. users"]
    get_project_no_mutation
      [of "\<lparr>projectId = Some ''demo''\<rparr>"
          "\<lambda>pid users. (if pid = ''demo'' then Inr ''projects/demo'' else Inl ''NOT_FOUND'', users)"
          "\<lambda>msg. (True, ''Error: '' @ msg)" "\<lambda>project. (False, project)"
          "\<lparr>uid = ''u1'', disable = True\<rparr>" "[(''u1'', False)]" "''u1''" True "\<lambda>users. users"]
  by (simp add: truthy_def)

section \<open>Properties of the command-line bootstrap\<close>

subsection \<open>Auxiliary facts\<close>

lemma candidates_eq:
  "candidates =
     [''firebase-debug.log'', ''firebase-debug.1.log'', ''firebase-debug.2.log'',
      ''firebase-debug.3.log'', ''firebase-debug.4.log'', ''firebase-debug.5.log'',
      ''firebase-debug.6.log'', ''firebase-debug.7.log'', ''firebase-debug.8.log'',
      ''firebase-debug.9.log'']"
  by (simp add: candidates_def pushCandidates.simps decimal.simps)

text \<open>
  When the working directory can be read, the loop returns the first path at which it
  stops: where the \<open>try\<close> returns, or the \<open>catch\<close> sees \<open>ENOENT\<close>.
\<close>

lemma tryCandidates_find:
  "cwd env = Inr dir \<Longrightarrow>
   tryCandidates env cs =
     (case find (\<lambda>f. case openAndClose env f of None \<Rightarrow> True | Some e \<Rightarrow> code e = Some ''ENOENT'')
             (map (join env dir) cs) of
        Some f \<Rightarrow> Inr f
      | None \<Rightarrow>
          Inl \<lparr>message = ''Unable to obtain permissions for firebase-debug.log'', code = None\<rparr>)"
  by (induction cs) (auto simp: Let_def split: option.splits)

lemma tryCandidates_cwd_throws:
  "cwd env = Inl e \<Longrightarrow> cs \<noteq> [] \<Longrightarrow> tryCandidates env cs = Inl e"
  by (cases cs) simp_all

lemma cli_registers_exit_listener:
  "findAvailableLogFile env = Inr logFilename \<Longrightarrow>
     exitListeners (snd (cli env p)) = exitListeners p @ [LogCleanup logFilename] \<and>
     logTransports (snd (cli env p)) = logTransports p @ [logFilename] \<and>
     envIS_FIREBASE_CLI (snd (cli env p)) = Some ''true'' \<and>
     (''--debug'' \<in> set (args p) \<longrightarrow> truthy (envDEBUG (snd (cli env p))))"
  by (simp add: cli_def truthy_def)

subsection \<open>findAvailableLogFile\<close>

text \<open>
  C2. The candidates are \<open>firebase-debug.log\<close> and then \<open>firebase-debug.1.log\<close> to
  \<open>firebase-debug.9.log\<close>, ten in all, each joined to the working directory. When
  \<open>process.cwd()\<close> throws, \<open>findAvailableLogFile\<close> throws the same error. Otherwise it
  returns a path exactly when that path is the first candidate that does not exist
  (opening fails with \<open>ENOENT\<close>) or can be opened for reading and writing and closed
  again (a close that fails with \<open>ENOENT\<close> counts as well), every earlier candidate being
  inaccessible: its opening, or the close after it, fails with another error. And it
  throws exactly when all ten candidates are inaccessible in that sense; the error is
  then the one about permissions.
\<close>

theorem findAvailableLogFile_first_available:
  "candidates =
     [''firebase-debug.log'', ''firebase-debug.1.log'', ''firebase-debug.2.log'',
      ''firebase-debug.3.log'', ''firebase-debug.4.log'', ''firebase-debug.5.log'',
      ''firebase-debug.6.log'', ''firebase-debug.7.log'', ''firebase-debug.8.log'',
      ''firebase-debug.9.log''] \<and>
   (cwd env = Inl e \<longrightarrow> findAvailableLogFile env = Inl e) \<and>
   (cwd env = Inr dir \<longrightarrow>
      (findAvailableLogFile env = Inr logFilename \<longleftrightarrow>
         (\<exists>k<10.
            logFilename = join env dir (candidates ! k) \<and>
            ((\<exists>e. openSync env (join env dir (candidates ! k)) = Inl e \<and>
                  code e = Some ''ENOENT'') \<or>
             (\<exists>fd. openSync env (join env dir (candidates ! k)) = Inr fd \<and>
                  (closeSync env fd = None \<or>
                   (\<exists>e. closeSync env fd = Some e \<and> code e = Some ''ENOENT'')))) \<and>
            (\<forall>j<k.
               (\<exists>e. openSync env (join env dir (candidates ! j)) = Inl e \<and>
                    code e \<noteq> Some ''ENOENT'') \<or>
               (\<exists>fd e. openSync env (join env dir (candidates ! j)) = Inr fd \<and>
                    closeSync env fd = Some e \<and> code e \<noteq> Some ''ENOENT'')))) \<and>
      ((\<exists>err. findAvailableLogFile env = Inl err) \<longleftrightarrow>
         (\<forall>k<10.
            (\<exists>e. openSync env (join env dir (candidates ! k)) = Inl e \<and>
                 code e \<noteq> Some ''ENOENT'') \<or>
            (\<exists>fd e. openSync env (join env dir (candidates ! k)) = Inr fd \<and>
                 closeSync env fd = Some e \<and> code e \<noteq> Some ''ENOENT''))) \<and>
      (\<forall>err. findAvailableLogFile env = Inl err \<longrightarrow>
         err = \<lparr>message = ''Unable to obtain permissions for firebase-debug.log'',
                 code = None\<rparr>))"
proof -
  let ?stops = "\<lambda>f. case openAndClose env f of None \<Rightarrow> True | Some e \<Rightarrow> code e = Some ''ENOENT''"
  have len: "length candidates = 10" by (simp add: candidates_eq)
  have stops: "?stops f \<longleftrightarrow>
      ((\<exists>e. openSync env f = Inl e \<and> code e = Some ''ENOENT'') \<or>
       (\<exists>fd. openSync env f = Inr fd \<and>
            (closeSync env fd = None \<or> (\<exists>e. closeSync env fd = Some e \<and> code e = Some ''ENOENT''))))"
    for f
    by (auto simp: openAndClose_def split: sum.splits option.splits)
  have skips: "\<not> ((\<exists>e. openSync env f = Inl e \<and> code e = Some ''ENOENT'') \<or>
       (\<exists>fd. openSync env f = Inr fd \<and>
            (closeSync env fd = None \<or> (\<exists>e. closeSync env fd = Some e \<and> code e = Some ''ENOENT''))))
     \<longleftrightarrow>
       ((\<exists>e. openSync env f = Inl e \<and> code e \<noteq> Some ''ENOENT'') \<or>
        (\<exists>fd e. openSync env f = Inr fd \<and> closeSync env fd = Some e \<and> code e \<noteq> Some ''ENOENT''))"
    for f
  proof (cases "openSync env f")
    case (Inl e)
    then show ?thesis by simp
  next
    case (Inr fd)
    then show ?thesis by (cases "closeSync env fd") simp_all
  qed
  have thrown: "cwd env = Inl e \<longrightarrow> findAvailableLogFile env = Inl e"
    by (simp add: findAvailableLogFile_def candidates_eq)
  have located: "(findAvailableLogFile env = Inr logFilename \<longleftrightarrow>
         (\<exists>k<10. logFilename = join env dir (candidates ! k) \<and>
            ?stops (join env dir (candidates ! k)) \<and>
            (\<forall>j<k. \<not> ?stops (join env dir (candidates ! j))))) \<and>
      ((\<exists>err. findAvailableLogFile env = Inl err) \<longleftrightarrow>
         (\<forall>k<10. \<not> ?stops (join env dir (candidates ! k)))) \<and>
      (\<forall>err. findAvailableLogFile env = Inl err \<longrightarrow>
         err = \<lparr>message = ''Unable to obtain permissions for firebase-debug.log'',
                 code = None\<rparr>)"
    if dir: "cwd env = Inr dir"
  proof -
    let ?paths = "map (join env dir) candidates"
    note run = tryCandidates_find [OF dir, of candidates, folded findAvailableLogFile_def]
    have ret: "findAvailableLogFile env = Inr logFilename \<longleftrightarrow>
        find ?stops ?paths = Some logFilename"
      unfolding run by (simp split: option.splits)
    have thr: "(\<exists>err. findAvailableLogFile env = Inl err) \<longleftrightarrow> find ?stops ?paths = None"
      unfolding run by (simp split: option.splits)
    have A: "findAvailableLogFile env = Inr logFilename \<longleftrightarrow>
        (\<exists>k<10. logFilename = join env dir (candidates ! k) \<and>
           ?stops (join env dir (candidates ! k)) \<and>
           (\<forall>j<k. \<not> ?stops (join env dir (candidates ! j))))"
      unfolding ret find_Some_iff using len by auto
    have "find ?stops ?paths = None \<longleftrightarrow>
        (\<forall>c\<in>set candidates. \<not> ?stops (join env dir c))"
      by (simp add: find_None_iff)
    then have B: "(\<exists>err. findAvailableLogFile env = Inl err) \<longleftrightarrow>
        (\<forall>k<10. \<not> ?stops (join env dir (candidates ! k)))"
      unfolding thr all_set_conv_all_nth len by simp
    have C: "\<forall>err. findAvailableLogFile env = Inl err \<longrightarrow>
         err = \<lparr>message = ''Unable to obtain permissions for firebase-debug.log'',
                 code = None\<rparr>"
      unfolding run by (simp split: option.splits)
    from A B C show ?thesis by blast
  qed
  show ?thesis
    using candidates_eq thrown located [unfolded stops skips] by blast
qed

theorem findAvailableLogFile_first_available_witness:
  "findAvailableLogFile
     \<lparr>cwd = Inr ''/w'', join = (\<lambda>dir name. dir @ ''/'' @ name),
      openSync = (\<lambda>path.
         if path = ''/w/firebase-debug.log''
         then Inl \<lparr>message = ''EACCES: permission denied'', code = Some ''EACCES''\<rparr>
         else if path = ''/w/firebase-debug.1.log'' then Inr 3
         else Inl \<lparr>message = ''ENOENT: no such file or directory'', code = Some ''ENOENT''\<rparr>),
      closeSync = (\<lambda>fd. None), unlinkError = (\<lambda>path. None)\<rparr>
   = Inr ''/w/firebase-debug.1.log'' \<and>
   findAvailableLogFile
     \<lparr>cwd = Inl \<lparr>message = ''ENOENT: no such file or directory, uv_cwd'',
                   code = Some ''ENOENT''\<rparr>,
      join = (\<lambda>dir name. dir @ ''/'' @ name),
      openSync = (\<lambda>path. Inr 3),
      closeSync = (\<lambda>fd. None), unlinkError = (\<lambda>path. None)\<rparr>
   = Inl \<lparr>message = ''ENOENT: no such file or directory, uv_cwd'', code = Some ''ENOENT''\<rparr>"
  (is "findAvailableLogFile ?env = _ \<and> findAvailableLogFile ?gone = Inl ?err")
proof -
  have dir: "cwd ?env = Inr ''/w''" by simp
  note spec = findAvailableLogFile_first_available
    [of ?env _ "''/w''" "''/w/firebase-debug.1.log''",
     THEN conjunct2, THEN conjunct2, rule_format, OF dir, THEN conjunct1]
  have "\<exists>k<10.
         ''/w/firebase-debug.1.log'' = join ?env ''/w'' (candidates ! k) \<and>
         ((\<exists>e. openSync ?env (join ?env ''/w'' (candidates ! k)) = Inl e \<and>
               code e = Some ''ENOENT'') \<or>
          (\<exists>fd. openSync ?env (join ?env ''/w'' (candidates ! k)) = Inr fd \<and>
               (closeSync ?env fd = None \<or>
                (\<exists>e. closeSync ?env fd = Some e \<and> code e = Some ''ENOENT'')))) \<and>
         (\<forall>j<k.
            (\<exists>e. openSync ?env (join ?env ''/w'' (candidates ! j)) = Inl e \<and>
                 code e \<noteq> Some ''ENOENT'') \<or>
            (\<exists>fd e. openSync ?env (join ?env ''/w'' (candidates ! j)) = Inr fd \<and>
                 closeSync ?env fd = Some e \<and> code e \<noteq> Some ''ENOENT''))"
    by (rule exI [of _ 1]) (simp add: candidates_eq)
  with spec have first: "findAvailableLogFile ?env = Inr ''/w/firebase-debug.1.log''"
    by blast
  have gone: "cwd ?gone = Inl ?err" by simp
  from findAvailableLogFile_first_available
    [of ?gone ?err "[]" "[]", THEN conjunct2, THEN conjunct1, rule_format, OF gone]
  have "findAvailableLogFile ?gone = Inl ?err" .
  with first show ?thesis by (rule conjI)
qed

text \<open>
  Every candidate can be opened for reading and writing, and yet none is returned: each
  close throws \<open>EIO\<close>, the \<open>catch\<close> covers the close as well, and the function throws.
  And with no candidate there at all (every opening fails with \<open>ENOENT\<close>), the function
  still throws when \<open>process.cwd()\<close> throws.
\<close>

theorem findAvailableLogFile_close_throws_counterexample:
  "openSync
     \<lparr>cwd = Inr ''/w'', join = (\<lambda>dir name. dir @ ''/'' @ name),
      openSync = (\<lambda>path. Inr 3),
      closeSync = (\<lambda>fd. Some \<lparr>message = ''EIO: i/o error, close'', code = Some ''EIO''\<rparr>),
      unlinkError = (\<lambda>path. None)\<rparr> ''/w/firebase-debug.log'' = Inr 3 \<and>
   findAvailableLogFile
     \<lparr>cwd = Inr ''/w'', join = (\<lambda>dir name. dir @ ''/'' @ name),
      openSync = (\<lambda>path. Inr 3),
      closeSync = (\<lambda>fd. Some \<lparr>message = ''EIO: i/o error, close'', code = Some ''EIO''\<rparr>),
      unlinkError = (\<lambda>path. None)\<rparr>
   = Inl \<lparr>message = ''Unable to obtain permissions for firebase-debug.log'', code = None\<rparr> \<and>
   findAvailableLogFile
     \<lparr>cwd = Inl \<lparr>message = ''ENOENT: no such file or directory, uv_cwd'',
                   code = Some ''ENOENT''\<rparr>,
      join = (\<lambda>dir name. dir @ ''/'' @ name),
      openSync = (\<lambda>path.
        Inl \<lparr>message = ''ENOENT: no such file or directory, open'', code = Some ''ENOENT''\<rparr>),
      closeSync = (\<lambda>fd. None), unlinkError = (\<lambda>path. None)\<rparr>
   = Inl \<lparr>message = ''ENOENT: no such file or directory, uv_cwd'', code = Some ''ENOENT''\<rparr>"
  by (simp add: findAvailableLogFile_def candidates_eq openAndClose_def)

subsection \<open>The exit listener\<close>

text \<open>
  C6. On exit, the log file is deleted exactly when \<open>DEBUG\<close> is unset or empty, the
  effective exit code (\<open>process.exitCode\<close> when it is set and not zero, the code of the
  exit otherwise) is less than 2, the log file exists, and \<open>fs.unlinkSync\<close> does not
  throw. When the first three hold and \<open>unlinkSync\<close> throws, the listener throws that
  error and the files are as before. When \<open>DEBUG\<close> is set to a non-empty string, or the
  effective exit code is 2 or more, the listener does not throw and leaves the state as
  it is. No other file is ever removed.
\<close>

theorem onExit_deletes_log:
  "((logFilename \<in> files p \<and> logFilename \<notin> files (snd (onExit env logFilename code0 p))) \<longleftrightarrow>
      ((envDEBUG p = None \<or> envDEBUG p = Some []) \<and> effectiveCode p code0 < 2 \<and>
       logFilename \<in> files p \<and> unlinkError env logFilename = None)) \<and>
   ((envDEBUG p = None \<or> envDEBUG p = Some []) \<and> effectiveCode p code0 < 2 \<and>
    logFilename \<in> files p \<and> unlinkError env logFilename = Some e \<longrightarrow>
      onExit env logFilename code0 p = (Inl e, p)) \<and>
   (((envDEBUG p \<noteq> None \<and> envDEBUG p \<noteq> Some []) \<or> effectiveCode p code0 \<ge> 2) \<longrightarrow>
      onExit env logFilename code0 p = (Inr (), p)) \<and>
   files (snd (onExit env logFilename code0 p)) - {logFilename} = files p - {logFilename}"
  by (auto simp: onExit_def truthy_def fileExistsSync_def unlinkSync_def Let_def
      split: option.splits)

theorem onExit_deletes_log_witness:
  "''/w/firebase-debug.log'' \<notin> files (snd (onExit
      \<lparr>cwd = Inr ''/w'', join = (\<lambda>dir name. dir @ ''/'' @ name), openSync = (\<lambda>path. Inr 3),
       closeSync = (\<lambda>fd. None), unlinkError = (\<lambda>path. None)\<rparr>
      ''/w/firebase-debug.log'' 1
      \<lparr>args = [''deploy''], envDEBUG = None, envIS_FIREBASE_CLI = Some ''true'', exitCode = None,
       files = {''/w/firebase-debug.log''}, logTransports = [''/w/firebase-debug.log''],
       exitListeners = [LogCleanup ''/w/firebase-debug.log''],
       uncaughtExceptionListeners = [CallErrorOut]\<rparr>)) \<and>
   ''/w/firebase-debug.log'' \<in> files (snd (onExit
      \<lparr>cwd = Inr ''/w'', join = (\<lambda>dir name. dir @ ''/'' @ name), openSync = (\<lambda>path. Inr 3),
       closeSync = (\<lambda>fd. None), unlinkError = (\<lambda>path. None)\<rparr>
      ''/w/firebase-debug.log'' 0
      \<lparr>args = [''deploy'', ''--debug''], envDEBUG = Some ''true'',
       envIS_FIREBASE_CLI = Some ''true'', exitCode = None,
       files = {''/w/firebase-debug.log''}, logTransports = [''/w/firebase-debug.log''],
       exitListeners = [LogCleanup ''/w/firebase-debug.log''],
       uncaughtExceptionListeners = [CallErrorOut]\<rparr>)) \<and>
   ''/w/firebase-debug.log'' \<in> files (snd (onExit
      \<lparr>cwd = Inr ''/w'', join = (\<lambda>dir name. dir @ ''/'' @ name), openSync = (\<lambda>path. Inr 3),
       closeSync = (\<lambda>fd. None), unlinkError = (\<lambda>path. None)\<rparr>
      ''/w/firebase-debug.log'' 0
      \<lparr>args = [''deploy''], envDEBUG = None, envIS_FIREBASE_CLI = Some ''true'',
       exitCode = Some 2,
       files = {''/w/firebase-debug.log''}, logTransports = [''/w/firebase-debug.log''],
       exitListeners = [LogCleanup ''/w/firebase-debug.log''],
       uncaughtExceptionListeners = [CallErrorOut]\<rparr>)) \<and>
   onExit
      \<lparr>cwd = Inr ''/w'', join = (\<lambda>dir name. dir @ ''/'' @ name), openSync = (\<lambda>path. Inr 3),
       closeSync = (\<lambda>fd. None),
       unlinkError = (\<lambda>path.
         Some \<lparr>message = ''EACCES: permission denied, unlink'', code = Some ''EACCES''\<rparr>)\<rparr>
      ''/w/firebase-debug.log'' 0
      \<lparr>args = [''deploy''], envDEBUG = None, envIS_FIREBASE_CLI = Some ''true'', exitCode = None,
       files = {''/w/firebase-debug.log''}, logTransports = [''/w/firebase-debug.log''],
       exitListeners = [LogCleanup ''/w/firebase-debug.log''],
       uncaughtExceptionListeners = [CallErrorOut]\<rparr>
    = (Inl \<lparr>message = ''EACCES: permission denied, unlink'', code = Some ''EACCES''\<rparr>,
       \<lparr>args = [''deploy''], envDEBUG = None, envIS_FIREBASE_CLI = Some ''true'', exitCode = None,
        files = {''/w/firebase-debug.log''}, logTransports = [''/w/firebase-debug.log''],
        exitListeners = [LogCleanup ''/w/firebase-debug.log''],
        uncaughtExceptionListeners = [CallErrorOut]\<rparr>)"
  (is "_ \<notin> files (snd (onExit ?env _ _ ?p1)) \<and> _ \<in> files (snd (onExit _ _ _ ?p2)) \<and>
       _ \<in> files (snd (onExit _ _ _ ?p3)) \<and> onExit ?denied _ _ _ = (Inl ?err, _)")
proof -
  have a: "''/w/firebase-debug.log'' \<notin> files (snd (onExit ?env ''/w/firebase-debug.log'' 1 ?p1))"
    using onExit_deletes_log [of "''/w/firebase-debug.log''" ?p1 ?env 1 ?err, THEN conjunct1]
    by (simp add: effectiveCode_def)
  have b: "''/w/firebase-debug.log'' \<in> files (snd (onExit ?env ''/w/firebase-debug.log'' 0 ?p2))"
    using onExit_deletes_log [of "''/w/firebase-debug.log''" ?p2 ?env 0 ?err,
        THEN conjunct2, THEN conjunct2, THEN conjunct1]
    by simp
  have c: "''/w/firebase-debug.log'' \<in> files (snd (onExit ?env ''/w/firebase-debug.log'' 0 ?p3))"
    using onExit_deletes_log [of "''/w/firebase-debug.log''" ?p3 ?env 0 ?err,
        THEN conjunct2, THEN conjunct2, THEN conjunct1]
    by (simp add: effectiveCode_def)
  have d: "onExit ?denied ''/w/firebase-debug.log'' 0 ?p1 = (Inl ?err, ?p1)"
    using onExit_deletes_log [of "''/w/firebase-debug.log''" ?p1 ?denied 0 ?err,
        THEN conjunct2, THEN conjunct1]
    by (simp add: effectiveCode_def)
  from a b c d show ?thesis by blast
qed

text \<open>
  With \<open>DEBUG\<close> set to the empty string the variable is set, and yet the log file is
  deleted: \<open>!process.env.DEBUG\<close> holds of the empty string. And with \<open>DEBUG\<close> unset, exit
  code 0 and the log file there, the file stays when \<open>unlinkSync\<close> throws \<open>EACCES\<close>.
\<close>

theorem onExit_empty_DEBUG_counterexample:
  "envDEBUG
     \<lparr>args = [''deploy''], envDEBUG = Some [], envIS_FIREBASE_CLI = Some ''true'',
      exitCode = None,
      files = {''/w/firebase-debug.log''}, logTransports = [''/w/firebase-debug.log''],
      exitListeners = [LogCleanup ''/w/firebase-debug.log''],
      uncaughtExceptionListeners = [CallErrorOut]\<rparr> \<noteq> None \<and>
   ''/w/firebase-debug.log'' \<in> files
     \<lparr>args = [''deploy''], envDEBUG = Some [], envIS_FIREBASE_CLI = Some ''true'',
      exitCode = None,
      files = {''/w/firebase-debug.log''}, logTransports = [''/w/firebase-debug.log''],
      exitListeners = [LogCleanup ''/w/firebase-debug.log''],
      uncaughtExceptionListeners = [CallErrorOut]\<rparr> \<and>
   ''/w/firebase-debug.log'' \<notin> files (snd (onExit
     \<lparr>cwd = Inr ''/w'', join = (\<lambda>dir name. dir @ ''/'' @ name), openSync = (\<lambda>path. Inr 3),
      closeSync = (\<lambda>fd. None), unlinkError = (\<lambda>path. None)\<rparr>
     ''/w/firebase-debug.log'' 0
     \<lparr>args = [''deploy''], envDEBUG = Some [], envIS_FIREBASE_CLI = Some ''true'',
      exitCode = None,
      files = {''/w/firebase-debug.log''}, logTransports = [''/w/firebase-debug.log''],
      exitListeners = [LogCleanup ''/w/firebase-debug.log''],
      uncaughtExceptionListeners = [CallErrorOut]\<rparr>)) \<and>
   ''/w/firebase-debug.log'' \<in> files (snd (onExit
     \<lparr>cwd = Inr ''/w'', join = (\<lambda>dir name. dir @ ''/'' @ name), openSync = (\<lambda>path. Inr 3),
      closeSync = (\<lambda>fd. None),
      unlinkError = (\<lambda>path.
        Some \<lparr>message = ''EACCES: permission denied, unlink'', code = Some ''EACCES''\<rparr>)\<rparr>
     ''/w/firebase-debug.log'' 0
     \<lparr>args = [''deploy''], envDEBUG = None, envIS_FIREBASE_CLI = Some ''true'',
      exitCode = None,
      files = {''/w/firebase-debug.log''}, logTransports = [''/w/firebase-debug.log''],
      exitListeners = [LogCleanup ''/w/firebase-debug.log''],
      uncaughtExceptionListeners = [CallErrorOut]\<rparr>))"
  by (simp add: onExit_def truthy_def effectiveCode_def fileExistsSync_def unlinkSync_def)

subsection \<open>The listener for uncaught exceptions\<close>

text \<open>
  C7. When \<open>findAvailableLogFile\<close> returns, \<open>cli\<close> returns with one more listener for
  uncaught exceptions, the one that calls \<open>errorOut\<close>; in a process that had no such
  listener before, an exception that nothing caught is then given to \<open>errorOut\<close> and to
  nothing else. When \<open>findAvailableLogFile\<close> throws, \<open>cli\<close> throws the same error and
  the process state is as before: no listener has been registered.
\<close>

theorem cli_registers_errorOut:
  "(findAvailableLogFile env = Inl e \<longrightarrow> cli env p = (Inl e, p)) \<and>
   (findAvailableLogFile env = Inr logFilename \<longrightarrow>
      fst (cli env p) = Inr () \<and>
      uncaughtExceptionListeners (snd (cli env p))
        = uncaughtExceptionListeners p @ [CallErrorOut] \<and>
      (uncaughtExceptionListeners p = [] \<longrightarrow>
         emitUncaughtException errorOut (snd (cli env p)) err = Inr [errorOut err]))"
  by (simp add: cli_def emitUncaughtException_def)

theorem cli_registers_errorOut_witness:
  "emitUncaughtException message
     (snd (cli
       \<lparr>cwd = Inr ''/w'', join = (\<lambda>dir name. dir @ ''/'' @ name),
        openSync = (\<lambda>path.
          Inl \<lparr>message = ''ENOENT: no such file or directory'', code = Some ''ENOENT''\<rparr>),
        closeSync = (\<lambda>fd. None), unlinkError = (\<lambda>path. None)\<rparr>
       \<lparr>args = [''deploy''], envDEBUG = None, envIS_FIREBASE_CLI = None, exitCode = None,
        files = {}, logTransports = [], exitListeners = [],
        uncaughtExceptionListeners = []\<rparr>))
     \<lparr>message = ''boom'', code = None\<rparr>
   = Inr [''boom'']"
  (is "emitUncaughtException message (snd (cli ?env ?p)) ?err = _")
proof -
  have found: "findAvailableLogFile ?env = Inr ''/w/firebase-debug.log''"
    by (simp add: findAvailableLogFile_def candidates_eq openAndClose_def)
  have none: "uncaughtExceptionListeners ?p = []" by simp
  from cli_registers_errorOut [of ?env _ ?p "''/w/firebase-debug.log''" message ?err] found none
  show ?thesis by simp
qed

text \<open>
  The error that \<open>findAvailableLogFile\<close> throws when every candidate is denied leaves
  \<open>cli\<close> before line 148 is reached. In a process with no listener of its own it
  reaches the process level with no listener registered, and \<open>errorOut\<close> is not called.
\<close>

theorem cli_startup_error_counterexample:
  "cli \<lparr>cwd = Inr ''/w'', join = (\<lambda>dir name. dir @ ''/'' @ name),
        openSync = (\<lambda>path.
          Inl \<lparr>message = ''EACCES: permission denied'', code = Some ''EACCES''\<rparr>),
        closeSync = (\<lambda>fd. None), unlinkError = (\<lambda>path. None)\<rparr>
       \<lparr>args = [''deploy''], envDEBUG = None, envIS_FIREBASE_CLI = None, exitCode = None,
        files = {}, logTransports = [], exitListeners = [],
        uncaughtExceptionListeners = []\<rparr>
     = (Inl \<lparr>message = ''Unable to obtain permissions for firebase-debug.log'', code = None\<rparr>,
        \<lparr>args = [''deploy''], envDEBUG = None, envIS_FIREBASE_CLI = None, exitCode = None,
         files = {}, logTransports = [], exitListeners = [],
         uncaughtExceptionListeners = []\<rparr>) \<and>
   emitUncaughtException message
     (snd (cli \<lparr>cwd = Inr ''/w'', join = (\<lambda>dir name. dir @ ''/'' @ name),
        openSync = (\<lambda>path.
          Inl \<lparr>message = ''EACCES: permission denied'', code = Some ''EACCES''\<rparr>),
        closeSync = (\<lambda>fd. None), unlinkError = (\<lambda>path. None)\<rparr>
       \<lparr>args = [''deploy''], envDEBUG = None, envIS_FIREBASE_CLI = None, exitCode = None,
        files = {}, logTransports = [], exitListeners = [],
        uncaughtExceptionListeners = []\<rparr>))
     \<lparr>message = ''Unable to obtain permissions for firebase-debug.log'', code = None\<rparr>
     = Inl \<lparr>message = ''Unable to obtain permissions for firebase-debug.log'', code = None\<rparr>"
  (is "cli ?env ?p = (Inl ?err, _) \<and> _")
proof -
  have denied: "findAvailableLogFile ?env = Inl ?err"
    by (simp add: findAvailableLogFile_def candidates_eq openAndClose_def)
  have run: "cli ?env ?p = (Inl ?err, ?p)"
    unfolding cli_def denied by simp
  have "emitUncaughtException message (snd (cli ?env ?p)) ?err = Inl ?err"
    unfolding run by (simp add: emitUncaughtException_def)
  with run show ?thesis by (rule conjI)
qed

end
